theory Spec2Isabelle
  imports Complex_Main "HOL-Library.Sublist" "HOL-Library.DAList"
begin

section \<open>JavaScript values used by the services\<close>

text \<open>
  A value caught by \<open>catch (error: any)\<close>. \<open>message\<close> is \<open>error.message\<close>
  (\<open>None\<close> when the thrown value has no such property, as for a thrown string),
  \<open>response_message\<close> is \<open>error.response?.data?.error?.message\<close> (set by the HTTP
  client on an error response) and \<open>as_string\<close> is \<open>String(error)\<close>.
\<close>

record js_error =
  message :: "string option"
  response_message :: "string option"
  as_string :: string

definition Error :: "string \<Rightarrow> js_error" where
  "Error msg = \<lparr>message = Some msg, response_message = None, as_string = ''Error: '' @ msg\<rparr>"

text \<open>\<open>s.includes(pat)\<close>: \<open>pat\<close> occurs in \<open>s\<close> as a contiguous, case-sensitive substring.\<close>

fun str_includes :: "string \<Rightarrow> string \<Rightarrow> bool" where
  "str_includes [] pat = (pat = [])"
| "str_includes (c # cs) pat = (prefix pat (c # cs) \<or> str_includes cs pat)"

text \<open>
  \<open>toUpperCase\<close> and \<open>toLowerCase\<close> on the ASCII letters; chain names, symbols and
  addresses are ASCII, other characters are left as they are.
\<close>

definition toUpperCase :: "string \<Rightarrow> string" where
  "toUpperCase s =
     map (\<lambda>c. case map_of (zip ''abcdefghijklmnopqrstuvwxyz'' ''ABCDEFGHIJKLMNOPQRSTUVWXYZ'') c of
                 Some u \<Rightarrow> u | None \<Rightarrow> c) s"

definition toLowerCase :: "string \<Rightarrow> string" where
  "toLowerCase s =
     map (\<lambda>c. case map_of (zip ''ABCDEFGHIJKLMNOPQRSTUVWXYZ'' ''abcdefghijklmnopqrstuvwxyz'') c of
                 Some l \<Rightarrow> l | None \<Rightarrow> c) s"

text \<open>The decimal rendering of a non-negative integer inside a template literal.\<close>

fun show_nat :: "nat \<Rightarrow> string" where
  "show_nat n =
     (if n < 10 then [''0123456789'' ! n]
      else show_nat (n div 10) @ [''0123456789'' ! (n mod 10)])"

declare show_nat.simps [simp del]

text \<open>Truthiness of an optional string, and \<open>a || b\<close> on optional strings.\<close>

definition truthy :: "string option \<Rightarrow> bool" where
  "truthy a = (case a of None \<Rightarrow> False | Some s \<Rightarrow> s \<noteq> [])"

definition or_str :: "string option \<Rightarrow> string \<Rightarrow> string" where
  "or_str a d = (case a of None \<Rightarrow> d | Some s \<Rightarrow> if s = [] then d else s)"

definition or_opt :: "string option \<Rightarrow> string option \<Rightarrow> string option" where
  "or_opt a b = (if truthy a then a else b)"

text \<open>A JavaScript number as far as the services look at it.\<close>

datatype js_number = NaN | Finite rat | PosInfinity | NegInfinity

text \<open>\<open>isNaN(n) || n <= 0\<close>\<close>

definition not_positive :: "js_number \<Rightarrow> bool" where
  "not_positive n =
     (case n of NaN \<Rightarrow> True | Finite r \<Rightarrow> r \<le> 0 | PosInfinity \<Rightarrow> False | NegInfinity \<Rightarrow> True)"

text \<open>Division of \<open>bigint\<close> values truncates towards zero.\<close>

definition bigint_div :: "int \<Rightarrow> int \<Rightarrow> int" where
  "bigint_div a b = sgn a * sgn b * (\<bar>a\<bar> div \<bar>b\<bar>)"

section \<open>transactionManager.ts\<close>

subsection \<open>Configuration\<close>

record chain_config =
  rpc :: "string list"
  chainId :: nat
  nativeCurrency :: string
  explorer :: string
  gasMultiplier :: rat

text \<open>
  \<open>CHAIN_CONFIG[chain]\<close>; the first endpoint of each chain comes from the process
  environment, here the function \<open>penv\<close>. Lookups in object literals are finite maps
  over the keys written in the source.
\<close>

definition CHAIN_CONFIG :: "(string \<Rightarrow> string option) \<Rightarrow> string \<Rightarrow> chain_config option" where
  "CHAIN_CONFIG penv chain =
     (if chain = ''ETHEREUM'' then
        Some \<lparr>rpc = [or_str (penv ''ALCHEMY_ETH_RPC'') ''https://eth.llamarpc.com'',
                     ''https://rpc.ankr.com/eth'', ''https://cloudflare-eth.com''],
              chainId = 1, nativeCurrency = ''ETH'',
              explorer = ''https://etherscan.io/tx/'', gasMultiplier = 12 / 10\<rparr>
      else if chain = ''BSC'' then
        Some \<lparr>rpc = [or_str (penv ''ALCHEMY_BSC_RPC'') ''https://bsc-dataseed.binance.org'',
                     ''https://bsc-dataseed1.defibit.io'', ''https://rpc.ankr.com/bsc''],
              chainId = 56, nativeCurrency = ''BNB'',
              explorer = ''https://bscscan.com/tx/'', gasMultiplier = 11 / 10\<rparr>
      else if chain = ''POLYGON'' then
        Some \<lparr>rpc = [or_str (penv ''ALCHEMY_POLYGON_RPC'') ''https://polygon-rpc.com'',
                     ''https://rpc.ankr.com/polygon'', ''https://polygon.llamarpc.com''],
              chainId = 137, nativeCurrency = ''MATIC'',
              explorer = ''https://polygonscan.com/tx/'', gasMultiplier = 13 / 10\<rparr>
      else None)"

record token_config =
  address :: string
  decimals :: nat

definition ERC20_TOKENS :: "string \<Rightarrow> string \<Rightarrow> token_config option" where
  "ERC20_TOKENS chain symbol =
     (if chain = ''ETHEREUM'' then
        (if symbol = ''USDT'' then
           Some \<lparr>address = ''0xdAC17F958D2ee523a2206206994597C13D831ec7'', decimals = 6\<rparr>
         else if symbol = ''USDC'' then
           Some \<lparr>address = ''0xA0b86991c6218b36c1d19D4a2e9Eb0cE3606eB48'', decimals = 6\<rparr>
         else None)
      else if chain = ''BSC'' then
        (if symbol = ''USDT'' then
           Some \<lparr>address = ''0x55d398326f99059fF775485246999027B3197955'', decimals = 18\<rparr>
         else if symbol = ''USDC'' then
           Some \<lparr>address = ''0x8AC76a51cc950d9822D68b83fE1Ad97B32Cd580d'', decimals = 18\<rparr>
         else None)
      else if chain = ''POLYGON'' then
        (if symbol = ''USDT'' then
           Some \<lparr>address = ''0xc2132D05D31c914a87C6611C10748AEb04B58e8F'', decimals = 6\<rparr>
         else if symbol = ''USDC'' then
           Some \<lparr>address = ''0x2791Bca1f2de4661ED88A30C99A7a9449Aa84174'', decimals = 6\<rparr>
         else None)
      else None)"

definition NONCE_CACHE_TTL :: int where
  "NONCE_CACHE_TTL = 30000"

subsection \<open>Module state and the outside world\<close>

record nonce_entry =
  nonce :: nat
  timestamp :: int

text \<open>
  A queue entry. \<open>retryCount\<close> starts at 0 and is only ever incremented, and
  \<open>maxRetries\<close> is a number of attempts (3 unless the caller gives another one):
  both are natural numbers. Times are milliseconds since the epoch.
\<close>

record QueuedTransaction =
  q_id :: string
  q_chain :: string
  q_from :: string
  q_to :: string
  q_amount :: string
  q_symbol :: string
  q_encryptedPrivateKey :: string
  retryCount :: nat
  maxRetries :: nat
  lastError :: "string option"
  createdAt :: int
  nextRetryAt :: "int option"

record tx_request =
  tx_to :: "string option"
  tx_value :: "int option"
  tx_from :: "string option"
  tx_data :: "string option"
  tx_nonce :: "nat option"
  tx_gasLimit :: "int option"
  tx_maxFeePerGas :: "int option"
  tx_maxPriorityFeePerGas :: "int option"
  tx_chainId :: "nat option"
  tx_type :: "nat option"

text \<open>
  The calls that leave the process, in the order they are made. \<open>Dispatch\<close> marks a
  call of \<open>sendEVMTransaction\<close> made by the retry queue for a queue id. The trace is
  only written, never read, by the functions below.
\<close>

datatype effect =
    ProbeRpc string
  | RpcGetBalance string
  | RpcTokenBalanceOf string string
  | RpcGetTransactionCount string
  | RpcEstimateGas
  | RpcGetFeeData
  | SignTransaction tx_request
  | BroadcastTransaction string
  | Dispatch string

text \<open>
  The two module-level maps. A JavaScript \<open>Map\<close> keeps its keys distinct and in
  insertion order; the queue is iterated, so it is an association list with distinct keys.
\<close>

record tm_state =
  nonceCache :: "string \<rightharpoonup> nonce_entry"
  transactionQueue :: "(string, QueuedTransaction) alist"
  trace :: "effect list"

text \<open>The effects that sign a transaction or hand it to the network.\<close>

definition submitted :: "effect \<Rightarrow> bool" where
  "submitted e = (case e of SignTransaction tx \<Rightarrow> True | BroadcastTransaction s \<Rightarrow> True | _ \<Rightarrow> False)"

definition log_effect :: "effect \<Rightarrow> tm_state \<Rightarrow> tm_state" where
  "log_effect e st = st\<lparr>trace := trace st @ [e]\<rparr>"

record fee_data =
  fd_maxFeePerGas :: "int option"
  fd_maxPriorityFeePerGas :: "int option"

text \<open>
  A connected \<open>ethers.JsonRpcProvider\<close>: what each request answers, a thrown error on
  the left. \<open>getBalance\<close> is asked twice in one dispatch and the balance can change in
  between, so its first argument numbers the query (0, then 1). \<open>balanceOf\<close> and
  \<open>populateTransfer\<close> are the ERC20 contract at the given address.
\<close>

record provider =
  network_chainId :: "nat option"
  getTransactionCount :: "string \<Rightarrow> js_error + nat"
  rpc_estimateGas :: "tx_request \<Rightarrow> js_error + int"
  getFeeData :: "js_error + fee_data"
  getBalance :: "nat \<Rightarrow> string \<Rightarrow> js_error + int"
  broadcastTransaction :: "string \<Rightarrow> js_error + string"
  balanceOf :: "string \<Rightarrow> string \<Rightarrow> js_error + int"
  populateTransfer :: "string \<Rightarrow> string \<Rightarrow> int \<Rightarrow> js_error + tx_request"

record wallet =
  w_address :: string
  signTransaction :: "tx_request \<Rightarrow> js_error + string"

text \<open>
  What one call finds outside the module: the process environment, the clock, the
  decryption helper, the endpoints that answer the liveness probe (\<open>connect\<close> gives the
  provider for an endpoint whose \<open>getBlockNumber()\<close> succeeds) and the library
  functions of ethers.
\<close>

record env =
  process_env :: "string \<Rightarrow> string option"
  date_now :: int
  decrypt :: "string \<Rightarrow> js_error + string"
  connect :: "string \<Rightarrow> provider option"
  newWallet :: "string \<Rightarrow> js_error + wallet"
  parseFloat :: "string \<Rightarrow> js_number"
  parseEther :: "string \<Rightarrow> js_error + int"
  parseUnits :: "string \<Rightarrow> nat \<Rightarrow> js_error + int"
  formatEther :: "int \<Rightarrow> string"
  formatUnits :: "int \<Rightarrow> nat \<Rightarrow> string"

subsection \<open>Provider management\<close>

fun getProvider_loop ::
  "(string \<Rightarrow> provider option) \<Rightarrow> string list \<Rightarrow> tm_state \<Rightarrow> provider option \<times> tm_state" where
  "getProvider_loop conn [] st = (None, st)"
| "getProvider_loop conn (url # rest) st =
     (let st1 = log_effect (ProbeRpc url) st in
      case conn url of
        Some p \<Rightarrow> (Some p, st1)
      | None \<Rightarrow> getProvider_loop conn rest st1)"

definition getProvider :: "env \<Rightarrow> string \<Rightarrow> tm_state \<Rightarrow> (js_error + provider) \<times> tm_state" where
  "getProvider E chain st =
     (case CHAIN_CONFIG (process_env E) chain of
        None \<Rightarrow> (Inl (Error (''Unsupported chain: '' @ chain)), st)
      | Some config \<Rightarrow>
          (case getProvider_loop (connect E) (rpc config) st of
             (Some p, st1) \<Rightarrow> (Inr p, st1)
           | (None, st1) \<Rightarrow> (Inl (Error (''All RPC endpoints failed for '' @ chain)), st1)))"

subsection \<open>Nonce management\<close>

definition nonce_cacheKey :: "nat option \<Rightarrow> string \<Rightarrow> string" where
  "nonce_cacheKey cid addr =
     (case cid of
        None \<Rightarrow> ''unknown''
      | Some n \<Rightarrow> if n = 0 then ''unknown'' else show_nat n) @ ''-'' @ toLowerCase addr"

definition getNextNonce ::
  "env \<Rightarrow> provider \<Rightarrow> string \<Rightarrow> tm_state \<Rightarrow> (js_error + nat) \<times> tm_state" where
  "getNextNonce E prov addr st =
     (let cacheKey = nonce_cacheKey (network_chainId prov) addr;
          cached = nonceCache st cacheKey;
          now = date_now E;
          st1 = log_effect (RpcGetTransactionCount addr) st
      in case getTransactionCount prov addr of
           Inl e \<Rightarrow> (Inl e, st1)
         | Inr onChainNonce \<Rightarrow>
             (case cached of
                Some c \<Rightarrow>
                  if now - timestamp c < NONCE_CACHE_TTL then
                    (let nextNonce = max (nonce c) onChainNonce in
                     (Inr nextNonce,
                      st1\<lparr>nonceCache := (nonceCache st1)
                             (cacheKey \<mapsto> \<lparr>nonce = nextNonce + 1, timestamp = now\<rparr>)\<rparr>))
                  else
                    (Inr onChainNonce,
                     st1\<lparr>nonceCache := (nonceCache st1)
                            (cacheKey \<mapsto> \<lparr>nonce = onChainNonce + 1, timestamp = now\<rparr>)\<rparr>)
              | None \<Rightarrow>
                  (Inr onChainNonce,
                   st1\<lparr>nonceCache := (nonceCache st1)
                          (cacheKey \<mapsto> \<lparr>nonce = onChainNonce + 1, timestamp = now\<rparr>)\<rparr>)))"

definition invalidateNonceCache :: "nat \<Rightarrow> string \<Rightarrow> tm_state \<Rightarrow> tm_state" where
  "invalidateNonceCache cid addr st =
     st\<lparr>nonceCache := (nonceCache st)((show_nat cid @ ''-'' @ toLowerCase addr) := None)\<rparr>"

subsection \<open>Gas estimation\<close>

record GasEstimate =
  gasLimit :: int
  maxFeePerGas :: int
  maxPriorityFeePerGas :: int
  estimatedCost :: string

text \<open>\<open>ethers.parseUnits(n, 'gwei')\<close> for the two literals of the source.\<close>

text \<open>
  In \<open>estimateGas\<close> the factor \<open>Math.floor(config.gasMultiplier * 100)\<close> is 120,
  110 and 130 for the three configured multipliers, in floating point as in the
  rationals. A missing configuration makes \<open>config.gasMultiplier\<close> throw inside the
  \<open>try\<close>, which gives the default limit as a failed provider estimate does.
\<close>

definition gwei :: "int \<Rightarrow> int" where
  "gwei n = n * 1000000000"

definition estimateGas ::
  "env \<Rightarrow> provider \<Rightarrow> string \<Rightarrow> tx_request \<Rightarrow> tm_state \<Rightarrow> (js_error + GasEstimate) \<times> tm_state" where
  "estimateGas E prov chain tx st =
     (let config = CHAIN_CONFIG (process_env E) chain;
          st1 = log_effect RpcEstimateGas st;
          dflt = (if truthy (tx_data tx) then 100000 else 21000);
          gl = (case rpc_estimateGas prov tx of
                  Inl e \<Rightarrow> dflt
                | Inr g \<Rightarrow>
                    (case config of
                       None \<Rightarrow> dflt
                     | Some c \<Rightarrow> bigint_div (g * \<lfloor>gasMultiplier c * 100\<rfloor>) 100));
          st2 = log_effect RpcGetFeeData st1
      in case getFeeData prov of
           Inl e \<Rightarrow> (Inl e, st2)
         | Inr feeData \<Rightarrow>
             (let mf = (case fd_maxFeePerGas feeData of
                          Some f \<Rightarrow> if f \<noteq> 0 then bigint_div (f * 120) 100 else gwei 50
                        | None \<Rightarrow> gwei 50);
                  mp = (case fd_maxPriorityFeePerGas feeData of
                          Some f \<Rightarrow> if f \<noteq> 0 then bigint_div (f * 120) 100 else gwei 2
                        | None \<Rightarrow> gwei 2)
              in (Inr \<lparr>gasLimit = gl, maxFeePerGas = mf, maxPriorityFeePerGas = mp,
                       estimatedCost = formatEther E (gl * mf)\<rparr>, st2)))"

subsection \<open>Transaction sending\<close>

record SendResult =
  success :: bool
  txHash :: "string option"
  explorerUrl :: "string option"
  error :: "string option"
  retryable :: "bool option"
  queueId :: "string option"

text \<open>The object \<open>{ success: false, error: msg, retryable: r }\<close>.\<close>

definition failure :: "string \<Rightarrow> bool \<Rightarrow> SendResult" where
  "failure msg r =
     \<lparr>success = False, txHash = None, explorerUrl = None, error = Some msg,
      retryable = Some r, queueId = None\<rparr>"

text \<open>A block of the \<open>try\<close> body throws, returns from the function, or goes on.\<close>

datatype ('r, 'a) flow = Throws js_error | Returns 'r | Continue 'a

text \<open>The request \<open>{ to: toAddress, value: amountWei, from: wallet.address }\<close>.\<close>

definition native_tx :: "string \<Rightarrow> int \<Rightarrow> string \<Rightarrow> tx_request" where
  "native_tx toAddress amountWei frm =
     \<lparr>tx_to = Some toAddress, tx_value = Some amountWei, tx_from = Some frm, tx_data = None,
      tx_nonce = None, tx_gasLimit = None, tx_maxFeePerGas = None,
      tx_maxPriorityFeePerGas = None, tx_chainId = None, tx_type = None\<rparr>"

text \<open>Lines 235 to 277: the token or native branch builds the request after its balance check.\<close>

definition sendEVM_prepare ::
  "env \<Rightarrow> provider \<Rightarrow> wallet \<Rightarrow> string \<Rightarrow> string \<Rightarrow> string \<Rightarrow> string \<Rightarrow> tm_state
     \<Rightarrow> (SendResult, bool \<times> tx_request) flow \<times> tm_state" where
  "sendEVM_prepare E prov w chain toAddress amount symbol st =
     (case ERC20_TOKENS chain symbol of
        Some tokenConfig \<Rightarrow>
          (case parseUnits E amount (decimals tokenConfig) of
             Inl e \<Rightarrow> (Throws e, st)
           | Inr tokenAmount \<Rightarrow>
               (let st1 = log_effect (RpcTokenBalanceOf (address tokenConfig) (w_address w)) st in
                case balanceOf prov (address tokenConfig) (w_address w) of
                  Inl e \<Rightarrow> (Throws e, st1)
                | Inr bal \<Rightarrow>
                    if bal < tokenAmount then
                      (Returns (failure (''Insufficient '' @ symbol @ '' balance. Have: ''
                                  @ formatUnits E bal (decimals tokenConfig)
                                  @ '', Need: '' @ amount) False), st1)
                    else
                      (case populateTransfer prov (address tokenConfig) toAddress tokenAmount of
                         Inl e \<Rightarrow> (Throws e, st1)
                       | Inr tx \<Rightarrow> (Continue (True, tx\<lparr>tx_from := Some (w_address w)\<rparr>), st1))))
      | None \<Rightarrow>
          (case parseEther E amount of
             Inl e \<Rightarrow> (Throws e, st)
           | Inr amountWei \<Rightarrow>
               (let st1 = log_effect (RpcGetBalance (w_address w)) st in
                case getBalance prov 0 (w_address w) of
                  Inl e \<Rightarrow> (Throws e, st1)
                | Inr bal \<Rightarrow>
                    if bal < amountWei then
                      (Returns (failure (''Insufficient '' @ symbol @ '' balance. Have: ''
                                  @ formatEther E bal @ '', Need: '' @ amount) False), st1)
                    else
                      (Continue (False, native_tx toAddress amountWei (w_address w)), st1))))"

text \<open>Lines 309 to 319: sign and broadcast.\<close>

definition sendEVM_sign ::
  "chain_config \<Rightarrow> provider \<Rightarrow> wallet \<Rightarrow> tx_request \<Rightarrow> tm_state
     \<Rightarrow> (js_error + SendResult) \<times> tm_state" where
  "sendEVM_sign config prov w tx st =
     (let st1 = log_effect (SignTransaction tx) st in
      case signTransaction w tx of
        Inl e \<Rightarrow> (Inl e, st1)
      | Inr signedTx \<Rightarrow>
          (let st2 = log_effect (BroadcastTransaction signedTx) st1 in
           case broadcastTransaction prov signedTx of
             Inl e \<Rightarrow> (Inl e, st2)
           | Inr h \<Rightarrow>
               (Inr \<lparr>success = True, txHash = Some h, explorerUrl = Some (explorer config @ h),
                     error = None, retryable = None, queueId = None\<rparr>, st2)))"

text \<open>Lines 279 to 307: nonce, gas estimate, fee level, and the check of amount plus gas.\<close>

definition sendEVM_submit ::
  "env \<Rightarrow> chain_config \<Rightarrow> provider \<Rightarrow> wallet \<Rightarrow> string \<Rightarrow> string \<Rightarrow> string \<Rightarrow> bool
     \<Rightarrow> tx_request \<Rightarrow> tm_state \<Rightarrow> (js_error + SendResult) \<times> tm_state" where
  "sendEVM_submit E config prov w chain symbol feeLevel isToken tx0 st =
     (case getNextNonce E prov (w_address w) st of
        (Inl e, st1) \<Rightarrow> (Inl e, st1)
      | (Inr n, st1) \<Rightarrow>
          (let tx1 = tx0\<lparr>tx_nonce := Some n\<rparr> in
           case estimateGas E prov chain tx1 st1 of
             (Inl e, st2) \<Rightarrow> (Inl e, st2)
           | (Inr gasEstimate, st2) \<Rightarrow>
               (let feeMultiplier =
                      (if feeLevel = ''fast'' then 150
                       else if feeLevel = ''economy'' then 80 else 100);
                    mf = bigint_div (maxFeePerGas gasEstimate * feeMultiplier) 100;
                    mp = bigint_div (maxPriorityFeePerGas gasEstimate * feeMultiplier) 100;
                    tx2 = tx1\<lparr>tx_gasLimit := Some (gasLimit gasEstimate),
                              tx_maxFeePerGas := Some mf,
                              tx_maxPriorityFeePerGas := Some mp,
                              tx_chainId := Some (chainId config),
                              tx_type := Some 2\<rparr>
                in if \<not> isToken then
                     (case tx_value tx2 of
                        None \<Rightarrow> (Inl (Error ''Cannot mix BigInt and other types''), st2)
                      | Some v \<Rightarrow>
                          (let totalCost = v + gasLimit gasEstimate * mf;
                               st3 = log_effect (RpcGetBalance (w_address w)) st2
                           in case getBalance prov 1 (w_address w) of
                                Inl e \<Rightarrow> (Inl e, st3)
                              | Inr bal \<Rightarrow>
                                  if bal < totalCost then
                                    (Inr (failure (''Insufficient balance for amount + gas. Need: ''
                                            @ formatEther E totalCost @ '' '' @ symbol) False), st3)
                                  else sendEVM_sign config prov w tx2 st3))
                   else sendEVM_sign config prov w tx2 st2)))"

text \<open>The body of the \<open>try\<close> block, lines 217 to 319.\<close>

definition sendEVM_try ::
  "env \<Rightarrow> chain_config \<Rightarrow> string \<Rightarrow> string \<Rightarrow> string \<Rightarrow> string \<Rightarrow> string \<Rightarrow> string
     \<Rightarrow> tm_state \<Rightarrow> (js_error + SendResult) \<times> tm_state" where
  "sendEVM_try E config chain encryptedPrivateKey toAddress amount symbol feeLevel st =
     (case decrypt E encryptedPrivateKey of
        Inl e \<Rightarrow> (Inl e, st)
      | Inr privateKey \<Rightarrow>
          if privateKey = [] \<or> length privateKey < 64 then
            (Inr (failure ''Invalid or corrupted private key'' False), st)
          else
            (case getProvider E chain st of
               (Inl e, st1) \<Rightarrow> (Inl e, st1)
             | (Inr prov, st1) \<Rightarrow>
                 (case newWallet E privateKey of
                    Inl e \<Rightarrow> (Inl e, st1)
                  | Inr w \<Rightarrow>
                      if not_positive (parseFloat E amount) then
                        (Inr (failure ''Invalid amount'' False), st1)
                      else
                        (case sendEVM_prepare E prov w chain toAddress amount symbol st1 of
                           (Throws e, st2) \<Rightarrow> (Inl e, st2)
                         | (Returns r, st2) \<Rightarrow> (Inr r, st2)
                         | (Continue (isToken, tx), st2) \<Rightarrow>
                             sendEVM_submit E config prov w chain symbol feeLevel isToken tx st2))))"

text \<open>The \<open>catch\<close> block, lines 321 to 344.\<close>

definition sendEVM_catch :: "chain_config \<Rightarrow> js_error \<Rightarrow> tm_state \<Rightarrow> SendResult \<times> tm_state" where
  "sendEVM_catch config e st =
     (let msg = or_str (message e) ''Unknown error'';
          isRetryable = (str_includes msg ''nonce'' \<or> str_includes msg ''replacement'' \<or>
                         str_includes msg ''timeout'' \<or> str_includes msg ''network'' \<or>
                         str_includes msg ''ETIMEDOUT'' \<or> str_includes msg ''rate limit'');
          st1 = (if str_includes msg ''nonce''
                 then invalidateNonceCache (chainId config) ''unknown'' st else st)
      in (failure msg isRetryable, st1))"

definition sendEVMTransaction ::
  "env \<Rightarrow> string \<Rightarrow> string \<Rightarrow> string \<Rightarrow> string \<Rightarrow> string \<Rightarrow> string \<Rightarrow> tm_state
     \<Rightarrow> SendResult \<times> tm_state" where
  "sendEVMTransaction E chain encryptedPrivateKey toAddress amount symbol feeLevel st =
     (case CHAIN_CONFIG (process_env E) chain of
        None \<Rightarrow> (failure (''Unsupported chain: '' @ chain) False, st)
      | Some config \<Rightarrow>
          (case sendEVM_try E config chain encryptedPrivateKey toAddress amount symbol feeLevel st of
             (Inl e, st1) \<Rightarrow> sendEVM_catch config e st1
           | (Inr r, st1) \<Rightarrow> (r, st1)))"

subsection \<open>Transaction queue\<close>




record queue_stats =
  pending :: nat
  retrying :: nat

fun getQueueStats_loop :: "QueuedTransaction list \<Rightarrow> queue_stats \<Rightarrow> queue_stats" where
  "getQueueStats_loop [] acc = acc"
| "getQueueStats_loop (tx # rest) acc =
     getQueueStats_loop rest
       (if retryCount tx > 0 then acc\<lparr>retrying := retrying acc + 1\<rparr>
        else acc\<lparr>pending := pending acc + 1\<rparr>)"

definition getQueueStats :: "tm_state \<Rightarrow> queue_stats" where
  "getQueueStats st =
     getQueueStats_loop (map snd (DAList.impl_of (transactionQueue st)))
       \<lparr>pending = 0, retrying = 0\<rparr>"

subsection \<open>Balance fetching\<close>

record balance_result =
  balance :: string
  b_error :: "string option"


subsection \<open>Gas estimation endpoint\<close>

definition show_int :: "int \<Rightarrow> string" where
  "show_int i = (if i < 0 then ''-'' @ show_nat (nat (- i)) else show_nat (nat i))"



section \<open>tronTransactionManager.ts\<close>





definition hexval :: "char \<Rightarrow> nat option" where
  "hexval c = map_of (zip ''0123456789abcdefABCDEF'' ([0..<16] @ [10..<16])) c"

definition hex_digit :: "char \<Rightarrow> nat" where
  "hex_digit c = (case hexval c of Some n \<Rightarrow> n | None \<Rightarrow> 0)"















section \<open>utxoTransactionManager.ts\<close>
















section \<open>The fee estimation route of the transactions router\<close>







section \<open>webhooks.ts\<close>

subsection \<open>The status store\<close>

datatype tx_status = Pending | Confirmed | Failed

text \<open>
  \<open>ts_timestamp\<close> is the time value of the \<open>Date\<close> (\<open>None\<close> for an invalid date);
  a field that the object literal leaves out, or sets to \<open>undefined\<close>, is \<open>None\<close>.
\<close>

record TransactionStatus =
  ts_txHash :: "string option"
  status :: tx_status
  confirmations :: int
  ts_chain :: string
  ts_timestamp :: "int option"
  fromAddress :: "string option"
  toAddress :: "string option"
  ts_amount :: "string option"
  blockNumber :: "js_number option"
  blockHash :: "string option"

text \<open>
  The store is a JavaScript \<open>Map\<close>: distinct keys in insertion order, and \<open>set\<close> on a
  key that is present replaces the value in place. The key is the \<open>hash\<close> field of the
  payload, which is \<open>undefined\<close> (\<open>None\<close>) when the payload lacks it. \<open>notified\<close> is
  the sequence of records handed to \<open>notifyListeners\<close>.
\<close>

record wh_state =
  transactionStatuses :: "(string option, TransactionStatus) alist"
  notified :: "TransactionStatus list"

text \<open>\<open>transactionStatuses.set(k, txStatus); notifyListeners(txStatus);\<close>\<close>

definition set_and_notify :: "string option \<times> TransactionStatus \<Rightarrow> wh_state \<Rightarrow> wh_state" where
  "set_and_notify w s =
     s\<lparr>transactionStatuses := DAList.update (fst w) (snd w) (transactionStatuses s),
       notified := notified s @ [snd w]\<rparr>"

text \<open>
  What a handler finds outside: the process environment, the clock (\<open>w_clock i\<close> is the
  \<open>i\<close>-th reading of \<open>new Date()\<close> or \<open>Date.now()\<close> while the request is handled), the
  HMAC functions of the crypto module with hexadecimal digest, and the parser behind
  \<open>new Date(string)\<close>.
\<close>

record wh_env =
  w_process_env :: "string \<Rightarrow> string option"
  w_clock :: "nat \<Rightarrow> int"
  hmac_sha256 :: "string \<Rightarrow> string \<Rightarrow> string"
  hmac_sha512 :: "string \<Rightarrow> string \<Rightarrow> string"
  parse_date :: "string \<Rightarrow> int option"

record 'b request =
  signature :: "string option"
  raw_body :: string
  body :: 'b

datatype http_response = Received | Unauthorized | ServerError "string option"

text \<open>
  \<open>parseInt(s, 16)\<close>: leading white space, a sign, an optional \<open>0x\<close>, then the longest
  run of hexadecimal digits; \<open>NaN\<close> when there is none, as for \<open>undefined\<close>.
\<close>

definition is_space :: "char \<Rightarrow> bool" where
  "is_space c = (c \<in> set [CHR '' '', CHR 0x09, CHR 0x0A, CHR 0x0B, CHR 0x0C, CHR 0x0D])"

definition parseInt16 :: "string option \<Rightarrow> js_number" where
  "parseInt16 a =
     (case a of
        None \<Rightarrow> NaN
      | Some s \<Rightarrow>
          (let s1 = dropWhile is_space s;
               neg = prefix ''-'' s1;
               s2 = (if prefix ''-'' s1 \<or> prefix ''+'' s1 then drop 1 s1 else s1);
               s3 = (if prefix ''0x'' s2 \<or> prefix ''0X'' s2 then drop 2 s2 else s2);
               ds = takeWhile (\<lambda>c. hexval c \<noteq> None) s3;
               v = int (foldl (\<lambda>acc c. 16 * acc + hex_digit c) 0 ds)
           in if ds = [] then NaN else Finite (of_int (if neg then - v else v))))"

subsection \<open>Alchemy\<close>

definition verifyAlchemySignature :: "wh_env \<Rightarrow> string \<Rightarrow> string option \<Rightarrow> js_error + bool" where
  "verifyAlchemySignature W b sg =
     (if \<not> truthy (w_process_env W ''ALCHEMY_WEBHOOK_SIGNING_KEY'') then Inr True
      else
        (let expectedSignature =
               hmac_sha256 W (or_str (w_process_env W ''ALCHEMY_WEBHOOK_SIGNING_KEY'') []) b
         in case sg of
              None \<Rightarrow> Inl (Error ''The first argument must be of type string'')
            | Some g \<Rightarrow>
                if length g \<noteq> length expectedSignature
                then Inl (Error ''Input buffers must have the same byte length'')
                else Inr (g = expectedSignature)))"

record alchemy_activity =
  a_hash :: "string option"
  a_blockNum :: "string option"
  a_fromAddress :: "string option"
  a_toAddress :: "string option"
  a_value :: "string option"
  a_blockHash :: "string option"

record alchemy_transaction =
  at_hash :: "string option"
  at_from :: "string option"
  at_to :: "string option"
  at_value :: "string option"
  at_blockNumber :: "string option"
  at_blockHash :: "string option"

record alchemy_event =
  ev_network :: "string option"
  ev_activity :: "alchemy_activity list option"
  ev_transaction :: "alchemy_transaction option"

record alchemy_body =
  al_type :: "string option"
  al_event :: "alchemy_event option"

text \<open>
  A handler never reads the store: each one is the list of writes
  (\<open>transactionStatuses.set\<close> with \<open>notifyListeners\<close>) it makes, in order, and the
  error it throws, if any. The writes made before a throw stay.
\<close>

type_synonym writes = "(string option \<times> TransactionStatus) list"

definition TypeError :: js_error where
  "TypeError = Error ''Cannot read properties of undefined''"

text \<open>The loop of lines 84 to 102 from the \<open>i\<close>-th element on.\<close>

fun alchemy_activity_loop ::
  "wh_env \<Rightarrow> string option \<Rightarrow> nat \<Rightarrow> alchemy_activity list \<Rightarrow> js_error option \<times> writes" where
  "alchemy_activity_loop W net i [] = (None, [])"
| "alchemy_activity_loop W net i (tx # rest) =
     (case net of
        None \<Rightarrow> (Some TypeError, [])
      | Some n \<Rightarrow>
          (let txStatus =
                 \<lparr>ts_txHash = a_hash tx,
                  status = (if truthy (a_blockNum tx) then Confirmed else Pending),
                  confirmations = (if truthy (a_blockNum tx) then 1 else 0),
                  ts_chain = toUpperCase n,
                  ts_timestamp = Some (w_clock W i),
                  fromAddress = a_fromAddress tx,
                  toAddress = a_toAddress tx,
                  ts_amount = a_value tx,
                  blockNumber = Some (parseInt16 (a_blockNum tx)),
                  blockHash = a_blockHash tx\<rparr>
           in case alchemy_activity_loop W net (i + 1) rest of
                (err, ws) \<Rightarrow> (err, (a_hash tx, txStatus) # ws)))"

definition alchemy_switch :: "wh_env \<Rightarrow> alchemy_body \<Rightarrow> js_error option \<times> writes" where
  "alchemy_switch W b =
     (if al_type b = Some ''ADDRESS_ACTIVITY'' then
        (case al_event b of
           None \<Rightarrow> (Some TypeError, [])
         | Some ev \<Rightarrow>
             alchemy_activity_loop W (ev_network ev) 0
               (case ev_activity ev of None \<Rightarrow> [] | Some a \<Rightarrow> a))
      else if al_type b = Some ''MINED_TRANSACTION'' then
        (case al_event b of
           None \<Rightarrow> (Some TypeError, [])
         | Some ev \<Rightarrow>
             (case ev_transaction ev of
                None \<Rightarrow> (Some TypeError, [])
              | Some t \<Rightarrow>
                  (None,
                   [(at_hash t,
                     \<lparr>ts_txHash = at_hash t, status = Confirmed, confirmations = 1,
                      ts_chain = or_str (map_option toUpperCase (ev_network ev)) ''ETHEREUM'',
                      ts_timestamp = Some (w_clock W 0),
                      fromAddress = at_from t, toAddress = at_to t, ts_amount = at_value t,
                      blockNumber = Some (parseInt16 (at_blockNumber t)),
                      blockHash = at_blockHash t\<rparr>)])))
      else if al_type b = Some ''DROPPED_TRANSACTION'' then
        (case al_event b of
           None \<Rightarrow> (Some TypeError, [])
         | Some ev \<Rightarrow>
             (case ev_transaction ev of
                None \<Rightarrow> (Some TypeError, [])
              | Some t \<Rightarrow>
                  (None,
                   [(at_hash t,
                     \<lparr>ts_txHash = at_hash t, status = Failed, confirmations = 0,
                      ts_chain = or_str (map_option toUpperCase (ev_network ev)) ''ETHEREUM'',
                      ts_timestamp = Some (w_clock W 0),
                      fromAddress = at_from t, toAddress = at_to t, ts_amount = None,
                      blockNumber = None, blockHash = None\<rparr>)])))
      else (None, []))"

text \<open>
  The response and the writes of a handler whose body is \<open>sw\<close>, once the signature
  check has answered \<open>verified\<close>; the check is only made in production.
\<close>

definition handler_result ::
  "wh_env \<Rightarrow> (js_error + bool) \<Rightarrow> js_error option \<times> writes \<Rightarrow> http_response \<times> writes" where
  "handler_result W verified sw =
     (case (if w_process_env W ''NODE_ENV'' = Some ''production'' then verified else Inr True) of
        Inl e \<Rightarrow> (ServerError (message e), [])
      | Inr ok \<Rightarrow>
          if \<not> ok then (Unauthorized, [])
          else (case sw of
                  (Some e, ws) \<Rightarrow> (ServerError (message e), ws)
                | (None, ws) \<Rightarrow> (Received, ws)))"

definition post_alchemy :: "wh_env \<Rightarrow> alchemy_body request \<Rightarrow> http_response \<times> writes" where
  "post_alchemy W req =
     handler_result W (verifyAlchemySignature W (raw_body req) (signature req))
       (alchemy_switch W (body req))"

subsection \<open>CryptoAPIs\<close>

definition verifyCryptoApisSignature :: "wh_env \<Rightarrow> string \<Rightarrow> string option \<Rightarrow> js_error + bool" where
  "verifyCryptoApisSignature W b sg =
     (if \<not> truthy (w_process_env W ''CRYPTOAPIS_WEBHOOK_SECRET'') then Inr True
      else Inr (sg = Some (hmac_sha512 W
                             (or_str (w_process_env W ''CRYPTOAPIS_WEBHOOK_SECRET'') []) b)))"

definition chainMap :: "string \<Rightarrow> string option" where
  "chainMap b =
     map_of [(''bitcoin'', ''BITCOIN''), (''litecoin'', ''LITECOIN''), (''dogecoin'', ''DOGECOIN''),
             (''ethereum'', ''ETHEREUM''), (''binance-smart-chain'', ''BSC''),
             (''polygon'', ''POLYGON'')] b"

text \<open>
  \<open>ci_sender0\<close> and \<open>ci_recipient0\<close> are \<open>item.senders?.[0]?.address\<close> and
  \<open>item.recipients?.[0]?.address\<close>.
\<close>

record cryptoapis_item =
  ci_transactionId :: "string option"
  ci_transactionHash :: "string option"
  ci_confirmations :: "int option"
  ci_blockchain :: "string option"
  ci_timestamp :: "int option"
  ci_sender0 :: "string option"
  ci_recipient0 :: "string option"
  ci_sender :: "string option"
  ci_recipient :: "string option"
  ci_amount :: "string option"
  ci_minedInBlockHeight :: "int option"
  ci_minedInBlockHash :: "string option"
  ci_blockHeight :: "int option"
  ci_blockHash :: "string option"

record cryptoapis_body =
  ca_event :: "string option"
  ca_item :: "cryptoapis_item option"

text \<open>\<open>n || d\<close> on an optional number.\<close>

definition or_num :: "int option \<Rightarrow> int \<Rightarrow> int" where
  "or_num a d = (case a of None \<Rightarrow> d | Some n \<Rightarrow> if n = 0 then d else n)"

definition cryptoapis_switch :: "wh_env \<Rightarrow> cryptoapis_body \<Rightarrow> js_error option \<times> writes" where
  "cryptoapis_switch W b =
     (if ca_event b = Some ''CONFIRMED_TX'' then
        (case ca_item b of
           None \<Rightarrow> (Some TypeError, [])
         | Some item \<Rightarrow>
             (case ci_blockchain item of
                None \<Rightarrow> (Some TypeError, [])
              | Some bc \<Rightarrow>
                  (None,
                   [(ci_transactionId item,
                     \<lparr>ts_txHash = ci_transactionId item, status = Confirmed,
                      confirmations = or_num (ci_confirmations item) 1,
                      ts_chain = or_str (chainMap bc) (toUpperCase bc),
                      ts_timestamp = map_option (\<lambda>t. t * 1000) (ci_timestamp item),
                      fromAddress = ci_sender0 item, toAddress = ci_recipient0 item,
                      ts_amount = ci_amount item,
                      blockNumber = map_option (\<lambda>n. Finite (of_int n)) (ci_minedInBlockHeight item),
                      blockHash = ci_minedInBlockHash item\<rparr>)])))
      else if ca_event b = Some ''UNCONFIRMED_TX'' then
        (case ca_item b of
           None \<Rightarrow> (Some TypeError, [])
         | Some item \<Rightarrow>
             (case ci_blockchain item of
                None \<Rightarrow> (Some TypeError, [])
              | Some bc \<Rightarrow>
                  (None,
                   [(ci_transactionId item,
                     \<lparr>ts_txHash = ci_transactionId item, status = Pending, confirmations = 0,
                      ts_chain = or_str (chainMap bc) (toUpperCase bc),
                      ts_timestamp = Some (w_clock W 0),
                      fromAddress = ci_sender0 item, toAddress = ci_recipient0 item,
                      ts_amount = ci_amount item, blockNumber = None, blockHash = None\<rparr>)])))
      else if ca_event b = Some ''ADDRESS_COINS_TRANSACTION_CONFIRMED''
              \<or> ca_event b = Some ''ADDRESS_TOKENS_TRANSACTION_CONFIRMED'' then
        (case ca_item b of
           None \<Rightarrow> (Some TypeError, [])
         | Some item \<Rightarrow>
             (case ci_blockchain item of
                None \<Rightarrow> (Some TypeError, [])
              | Some bc \<Rightarrow>
                  (None,
                   [(or_opt (ci_transactionHash item) (ci_transactionId item),
                     \<lparr>ts_txHash = or_opt (ci_transactionHash item) (ci_transactionId item),
                      status = Confirmed,
                      confirmations = or_num (ci_confirmations item) 6,
                      ts_chain = or_str (chainMap bc) (toUpperCase bc),
                      ts_timestamp = map_option (\<lambda>t. t * 1000) (ci_timestamp item),
                      fromAddress = ci_sender item, toAddress = ci_recipient item,
                      ts_amount = ci_amount item,
                      blockNumber = map_option (\<lambda>n. Finite (of_int n)) (ci_blockHeight item),
                      blockHash = ci_blockHash item\<rparr>)])))
      else (None, []))"

definition post_cryptoapis :: "wh_env \<Rightarrow> cryptoapis_body request \<Rightarrow> http_response \<times> writes" where
  "post_cryptoapis W req =
     handler_result W (verifyCryptoApisSignature W (raw_body req) (signature req))
       (cryptoapis_switch W (body req))"

subsection \<open>Quidax\<close>

definition verifyQuidaxSignature :: "wh_env \<Rightarrow> string \<Rightarrow> string option \<Rightarrow> js_error + bool" where
  "verifyQuidaxSignature W b sg =
     (if \<not> truthy (w_process_env W ''QUIDAX_WEBHOOK_SECRET'') then Inr True
      else Inr (sg = Some (hmac_sha256 W
                             (or_str (w_process_env W ''QUIDAX_WEBHOOK_SECRET'') []) b)))"

record quidax_data =
  qd_txid :: "string option"
  qd_id :: "string option"
  qd_confirmations :: "int option"
  qd_currency :: "string option"
  qd_created_at :: "string option"
  qd_done_at :: "string option"
  qd_address :: "string option"
  qd_fund_uid :: "string option"
  qd_amount :: "string option"

record quidax_body =
  qb_event :: "string option"
  qb_data :: "quidax_data option"

text \<open>\<open>new Date(d || Date.now())\<close> for an optional date string \<open>d\<close>.\<close>

definition date_or_now :: "wh_env \<Rightarrow> string option \<Rightarrow> int option" where
  "date_or_now W d =
     (case d of
        None \<Rightarrow> Some (w_clock W 0)
      | Some t \<Rightarrow> if t = [] then Some (w_clock W 0) else parse_date W t)"

definition quidax_switch :: "wh_env \<Rightarrow> quidax_body \<Rightarrow> js_error option \<times> writes" where
  "quidax_switch W b =
     (if qb_event b = Some ''deposit.successful'' then
        (case qb_data b of
           None \<Rightarrow> (Some TypeError, [])
         | Some d \<Rightarrow>
             (None,
              [(or_opt (qd_txid d) (qd_id d),
                \<lparr>ts_txHash = or_opt (qd_txid d) (qd_id d), status = Confirmed,
                 confirmations = or_num (qd_confirmations d) 1,
                 ts_chain = or_str (map_option toUpperCase (qd_currency d)) ''UNKNOWN'',
                 ts_timestamp = date_or_now W (qd_created_at d),
                 fromAddress = None, toAddress = qd_address d, ts_amount = qd_amount d,
                 blockNumber = None, blockHash = None\<rparr>)]))
      else if qb_event b = Some ''withdraw.successful'' then
        (case qb_data b of
           None \<Rightarrow> (Some TypeError, [])
         | Some d \<Rightarrow>
             (None,
              [(or_opt (qd_txid d) (qd_id d),
                \<lparr>ts_txHash = or_opt (qd_txid d) (qd_id d), status = Confirmed,
                 confirmations = 1,
                 ts_chain = or_str (map_option toUpperCase (qd_currency d)) ''UNKNOWN'',
                 ts_timestamp = date_or_now W (qd_done_at d),
                 fromAddress = None, toAddress = qd_fund_uid d, ts_amount = qd_amount d,
                 blockNumber = None, blockHash = None\<rparr>)]))
      else if qb_event b = Some ''withdraw.failed'' then
        (case qb_data b of
           None \<Rightarrow> (Some TypeError, [])
         | Some d \<Rightarrow>
             (None,
              [(qd_id d,
                \<lparr>ts_txHash = qd_id d, status = Failed, confirmations = 0,
                 ts_chain = or_str (map_option toUpperCase (qd_currency d)) ''UNKNOWN'',
                 ts_timestamp = Some (w_clock W 0),
                 fromAddress = None, toAddress = qd_fund_uid d, ts_amount = qd_amount d,
                 blockNumber = None, blockHash = None\<rparr>)]))
      else if qb_event b = Some ''trade.successful'' then
        (case qb_data b of
           None \<Rightarrow> (Some TypeError, [])
         | Some d \<Rightarrow> (None, []))
      else (None, []))"

definition post_quidax :: "wh_env \<Rightarrow> quidax_body request \<Rightarrow> http_response \<times> writes" where
  "post_quidax W req =
     handler_result W (verifyQuidaxSignature W (raw_body req) (signature req))
       (quidax_switch W (body req))"

subsection \<open>TronGrid\<close>

text \<open>
  \<open>tg_contractRet\<close> is \<open>transaction.ret?.[0]?.contractRet\<close>, \<open>tg_timestamp\<close> is
  \<open>transaction.raw_data?.timestamp\<close>, and the last three fields are \<open>owner_address\<close>,
  \<open>to_address\<close> and \<open>amount?.toString()\<close> under
  \<open>transaction.raw_data?.contract?.[0]?.parameter?.value\<close>.
\<close>

record trongrid_transaction =
  tg_txID :: "string option"
  tg_hash :: "string option"
  tg_contractRet :: "string option"
  tg_timestamp :: "int option"
  tg_owner_address :: "string option"
  tg_to_address :: "string option"
  tg_amount :: "string option"

record trongrid_body =
  tg_event :: "string option"
  tg_transaction :: "trongrid_transaction option"

definition post_trongrid :: "wh_env \<Rightarrow> trongrid_body \<Rightarrow> http_response \<times> writes" where
  "post_trongrid W b =
     (case tg_transaction b of
        None \<Rightarrow> (Received, [])
      | Some t \<Rightarrow>
          (Received,
           [(or_opt (tg_txID t) (tg_hash t),
             \<lparr>ts_txHash = or_opt (tg_txID t) (tg_hash t),
              status = (if tg_contractRet t = Some ''SUCCESS'' then Confirmed else Pending),
              confirmations = (if tg_contractRet t = Some ''SUCCESS'' then 1 else 0),
              ts_chain = ''TRON'',
              ts_timestamp = Some (or_num (tg_timestamp t) (w_clock W 0)),
              fromAddress = tg_owner_address t, toAddress = tg_to_address t,
              ts_amount = tg_amount t, blockNumber = None, blockHash = None\<rparr>)]))"

subsection \<open>Ingestion and status query\<close>

datatype notification =
    Alchemy "alchemy_body request"
  | CryptoApis "cryptoapis_body request"
  | Quidax "quidax_body request"
  | TronGrid trongrid_body

fun handle :: "wh_env \<Rightarrow> notification \<Rightarrow> http_response \<times> writes" where
  "handle W (Alchemy req) = post_alchemy W req"
| "handle W (CryptoApis req) = post_cryptoapis W req"
| "handle W (Quidax req) = post_quidax W req"
| "handle W (TronGrid b) = post_trongrid W b"

definition ingest :: "wh_env \<Rightarrow> notification \<Rightarrow> wh_state \<Rightarrow> http_response \<times> wh_state" where
  "ingest W n s = (fst (handle W n), fold set_and_notify (snd (handle W n)) s)"

text \<open>\<open>GET /status/:txHash\<close>: the record, or \<open>None\<close> for the 404 response.\<close>

definition get_status :: "wh_state \<Rightarrow> string \<Rightarrow> TransactionStatus option" where
  "get_status s h = DAList.lookup (transactionStatuses s) (Some h)"

section \<open>Runs of the retry queue\<close>


definition dispatches :: "string \<Rightarrow> tm_state \<Rightarrow> nat" where
  "dispatches qid st = length (filter (\<lambda>e. e = Dispatch qid) (trace st))"

text \<open>The queue and the dispatches made for \<open>qid\<close> are the same in both states.\<close>

definition queue_kept :: "string \<Rightarrow> tm_state \<Rightarrow> tm_state \<Rightarrow> bool" where
  "queue_kept qid st st' \<longleftrightarrow>
     transactionQueue st' = transactionQueue st \<and> dispatches qid st' = dispatches qid st"

section \<open>A sample world\<close>

text \<open>
  A provider on chain 1 that reports a pending count of 5 and a balance of 5 ether,
  and rejects every broadcast with the message \<open>nonce too high\<close>; a wallet with a
  mixed-case address; and a state whose nonce cache holds 9 for that address.
\<close>

definition sample_provider :: provider where
  "sample_provider =
     \<lparr>network_chainId = Some 1,
      getTransactionCount = (\<lambda>a. Inr 5),
      rpc_estimateGas = (\<lambda>tx. Inr 21000),
      getFeeData = Inr \<lparr>fd_maxFeePerGas = Some 1000000000, fd_maxPriorityFeePerGas = Some 100000000\<rparr>,
      getBalance = (\<lambda>i a. Inr 5000000000000000000),
      broadcastTransaction = (\<lambda>s. Inl (Error ''nonce too high'')),
      balanceOf = (\<lambda>t a. Inr 0),
      populateTransfer = (\<lambda>t a n. Inl (Error ''not a token transfer''))\<rparr>"

definition sample_wallet :: wallet where
  "sample_wallet = \<lparr>w_address = ''0xAbC'', signTransaction = (\<lambda>tx. Inr ''0xsigned'')\<rparr>"

definition sample_env :: env where
  "sample_env =
     \<lparr>process_env = (\<lambda>k. None),
      date_now = 100000,
      decrypt = (\<lambda>c. Inr (replicate 64 (CHR ''k''))),
      connect = (\<lambda>url. if url = ''https://eth.llamarpc.com'' then Some sample_provider else None),
      newWallet = (\<lambda>k. Inr sample_wallet),
      parseFloat = (\<lambda>s. Finite 1),
      parseEther = (\<lambda>s. Inr 1000000000000000000),
      parseUnits = (\<lambda>s d. Inr 0),
      formatEther = (\<lambda>i. show_int i),
      formatUnits = (\<lambda>i d. show_int i)\<rparr>"

definition sample_entry :: QueuedTransaction where
  "sample_entry =
     \<lparr>q_id = ''q1'', q_chain = ''ETHEREUM'', q_from = [], q_to = ''0xDeF'', q_amount = ''1'',
      q_symbol = ''ETH'', q_encryptedPrivateKey = ''U2FsdGVk'', retryCount = 0, maxRetries = 3,
      lastError = None, createdAt = 50000, nextRetryAt = None\<rparr>"

definition sample_state :: tm_state where
  "sample_state =
     \<lparr>nonceCache = [''1-0xabc'' \<mapsto> \<lparr>nonce = 9, timestamp = 90000\<rparr>],
      transactionQueue = DAList.update ''q1'' sample_entry DAList.empty,
      trace = []\<rparr>"


text \<open>An empty state, and the sample world with another provider behind the first endpoint.\<close>

definition fresh_state :: tm_state where
  "fresh_state = \<lparr>nonceCache = Map.empty, transactionQueue = DAList.empty, trace = []\<rparr>"








text \<open>A sender with a balance of one ether; \<open>wei\<close> is what the amount parses to.\<close>

definition poor_provider :: provider where
  "poor_provider = sample_provider\<lparr>getBalance := (\<lambda>i a. Inr 1000000000000000000)\<rparr>"

definition poor_env :: "int \<Rightarrow> env" where
  "poor_env wei =
     sample_env\<lparr>connect := (\<lambda>url. if url = ''https://eth.llamarpc.com'' then Some poor_provider
                                   else None),
                  parseEther := (\<lambda>s. Inr wei)\<rparr>"


section \<open>Comparing status stores\<close>

text \<open>
  The store before any notification; a write with the observed timestamp blanked out,
  to compare records in all their other fields; and the key order of a \<open>Map\<close> after
  \<open>set\<close>: a new key goes to the end, a key that is present keeps its place.
\<close>

definition empty_store :: wh_state where
  "empty_store = \<lparr>transactionStatuses = DAList.empty, notified = []\<rparr>"



section \<open>Sample notifications\<close>

text \<open>
  A process outside production whose clock reads \<open>t\<close>; an address-activity
  notification of one mined transaction; a TronGrid notification of a successful
  transaction; and a dropped-transaction notification for the same hash.
\<close>

definition wh_env_at :: "int \<Rightarrow> wh_env" where
  "wh_env_at t =
     \<lparr>w_process_env = (\<lambda>k. None), w_clock = (\<lambda>i. t), hmac_sha256 = (\<lambda>k b. []),
      hmac_sha512 = (\<lambda>k b. []), parse_date = (\<lambda>s. None)\<rparr>"


definition sample_tron_success :: trongrid_body where
  "sample_tron_success =
     \<lparr>tg_event = None,
      tg_transaction = Some \<lparr>tg_txID = Some ''abc123'', tg_hash = None,
                             tg_contractRet = Some ''SUCCESS'', tg_timestamp = Some 5000,
                             tg_owner_address = Some ''TFrom'', tg_to_address = Some ''TTo'',
                             tg_amount = Some ''1000000''\<rparr>\<rparr>"

definition sample_dropped :: "alchemy_body request" where
  "sample_dropped =
     \<lparr>signature = None, raw_body = [],
      body = \<lparr>al_type = Some ''DROPPED_TRANSACTION'',
              al_event = Some \<lparr>ev_network = None, ev_activity = None,
                ev_transaction = Some \<lparr>at_hash = Some ''abc123'', at_from = Some ''TFrom'',
                                        at_to = Some ''TTo'', at_value = None,
                                        at_blockNumber = None, at_blockHash = None\<rparr>\<rparr>\<rparr>\<rparr>"

section \<open>The classification of failures in the words of the specification\<close>


section \<open>Evaluation and bookkeeping lemmas\<close>

lemmas evm_defs = sendEVMTransaction_def sendEVM_try_def sendEVM_prepare_def sendEVM_submit_def
  sendEVM_sign_def sendEVM_catch_def getProvider_def getNextNonce_def estimateGas_def
  invalidateNonceCache_def nonce_cacheKey_def CHAIN_CONFIG_def ERC20_TOKENS_def log_effect_def
  failure_def Error_def or_str_def truthy_def not_positive_def bigint_div_def gwei_def
  native_tx_def
  NONCE_CACHE_TTL_def toLowerCase_def show_nat.simps Let_def

lemma queue_kept_refl [simp]: "queue_kept qid st st"
  by (simp add: queue_kept_def)


lemma queue_kept_log [simp]:
  "e \<noteq> Dispatch qid \<Longrightarrow> queue_kept qid st (log_effect e st)"
  by (simp add: queue_kept_def log_effect_def dispatches_def)

lemma queue_kept_log_trans [simp]:
  "e \<noteq> Dispatch qid \<Longrightarrow> queue_kept qid st (log_effect e st') \<longleftrightarrow> queue_kept qid st st'"
  by (simp add: queue_kept_def log_effect_def dispatches_def)

lemma queue_kept_nonceCache [simp]:
  "queue_kept qid st (st'\<lparr>nonceCache := c\<rparr>) \<longleftrightarrow> queue_kept qid st st'"
  by (simp add: queue_kept_def dispatches_def)

















lemma getQueueStats_loop_count:
  "getQueueStats_loop txs acc =
     \<lparr>pending = pending acc + length (filter (\<lambda>tx. retryCount tx = 0) txs),
      retrying = retrying acc + length (filter (\<lambda>tx. retryCount tx > 0) txs)\<rparr>"
  by (induction txs arbitrary: acc) auto

section \<open>Nonce allocation\<close>

text \<open>
  C1. Every call of \<open>getNextNonce\<close> asks the provider for the pending transaction
  count, whatever the cache holds. When the provider answers \<open>n\<close>, the call returns
  \<open>max cached n\<close> if the cache has an entry for the key that is younger than the
  30000 ms of the TTL, and \<open>n\<close> otherwise; in both cases the cache entry of the key
  becomes one past the returned nonce, stamped with the current time, and the returned
  nonce is at least \<open>n\<close>. When the provider throws, the error is passed on and the
  cache is left as it was.
\<close>

theorem getNextNonce_spec:
  "trace (snd (getNextNonce E prov addr st)) = trace st @ [RpcGetTransactionCount addr]
   \<and> (\<forall>n. getTransactionCount prov addr = Inr n \<longrightarrow>
        (\<exists>r st'. getNextNonce E prov addr st = (Inr r, st')
           \<and> r = (case nonceCache st (nonce_cacheKey (network_chainId prov) addr) of
                   Some c \<Rightarrow> if date_now E - timestamp c < 30000 then max (nonce c) n else n
                 | None \<Rightarrow> n)
           \<and> nonceCache st' = (nonceCache st)
                (nonce_cacheKey (network_chainId prov) addr
                   \<mapsto> \<lparr>nonce = r + 1, timestamp = date_now E\<rparr>)
           \<and> n \<le> r))
   \<and> (\<forall>e. getTransactionCount prov addr = Inl e \<longrightarrow>
        fst (getNextNonce E prov addr st) = Inl e
        \<and> nonceCache (snd (getNextNonce E prov addr st)) = nonceCache st)"
  by (auto simp: getNextNonce_def log_effect_def NONCE_CACHE_TTL_def Let_def
           split: sum.splits option.splits)

theorem getNextNonce_spec_witness:
  "getTransactionCount sample_provider ''0xAbC'' = Inr 5
   \<and> (\<exists>st'. getNextNonce sample_env sample_provider ''0xAbC'' sample_state = (Inr 9, st')
          \<and> nonceCache st' ''1-0xabc'' = Some \<lparr>nonce = 10, timestamp = 100000\<rparr>)"
proof -
  have h: "getTransactionCount sample_provider ''0xAbC'' = Inr 5"
    by (simp add: sample_provider_def)
  have k: "nonce_cacheKey (network_chainId sample_provider) ''0xAbC'' = ''1-0xabc''"
    by (simp add: nonce_cacheKey_def sample_provider_def toLowerCase_def show_nat.simps)
  from getNextNonce_spec [of sample_env sample_provider "''0xAbC''" sample_state] h
  obtain r st' where
    "getNextNonce sample_env sample_provider ''0xAbC'' sample_state = (Inr r, st')"
    "r = (case nonceCache sample_state
                 (nonce_cacheKey (network_chainId sample_provider) ''0xAbC'') of
            Some c \<Rightarrow> if date_now sample_env - timestamp c < 30000 then max (nonce c) 5 else 5
          | None \<Rightarrow> 5)"
    "nonceCache st' = (nonceCache sample_state)
       (nonce_cacheKey (network_chainId sample_provider) ''0xAbC''
          \<mapsto> \<lparr>nonce = r + 1, timestamp = date_now sample_env\<rparr>)"
    by blast
  then show ?thesis
    using h by (simp add: k sample_state_def sample_env_def)
qed

section \<open>The retry queue\<close>




section \<open>Balance checks before signing\<close>

lemma submitted_log [simp]:
  "filter submitted (trace (log_effect e st)) =
     filter submitted (trace st) @ (if submitted e then [e] else [])"
  by (simp add: log_effect_def)

lemma getProvider_loop_unsubmitted:
  "filter submitted (trace (snd (getProvider_loop conn urls st))) = filter submitted (trace st)"
  by (induction urls arbitrary: st) (auto simp: Let_def submitted_def split: option.splits)

lemma getProvider_unsubmitted:
  "getProvider E chain st = (r, st1) \<Longrightarrow> filter submitted (trace st1) = filter submitted (trace st)"
  using getProvider_loop_unsubmitted [of "connect E" _ st]
  by (auto simp: getProvider_def split: option.splits prod.splits) (metis snd_conv)+

lemma getNextNonce_unsubmitted:
  "getNextNonce E prov addr st = (r, st1) \<Longrightarrow>
   filter submitted (trace st1) = filter submitted (trace st)"
  by (auto simp: getNextNonce_def Let_def submitted_def split: sum.splits option.splits if_splits)

lemma estimateGas_unsubmitted:
  "estimateGas E prov chain tx st = (r, st1) \<Longrightarrow>
   filter submitted (trace st1) = filter submitted (trace st)"
  by (auto simp: estimateGas_def Let_def submitted_def split: sum.splits option.splits)

text \<open>
  C6. Take a send of a native asset that gets as far as the balance query: the chain
  is configured, the key decrypts to at least 64 characters, an endpoint answers, the
  wallet is built, the amount parses as a positive number and as \<open>amountWei\<close>, and
  the provider reports the balance \<open>bal\<close>. If \<open>bal < amountWei\<close> the dispatcher
  returns the insufficient-balance failure with \<open>retryable = false\<close>. If the first
  check passes, the nonce and the gas estimate are obtained, and the second balance
  query reports less than the amount plus gas limit times fee, it returns the
  insufficient-balance-for-amount-plus-gas failure with \<open>retryable = false\<close>. In both
  cases nothing has been signed or broadcast when it returns.
\<close>

theorem insufficient_native_balance_rejected:
  assumes "CHAIN_CONFIG (process_env E) chain = Some config"
    and "decrypt E encryptedPrivateKey = Inr privateKey"
    and "64 \<le> length privateKey"
    and "getProvider E chain st = (Inr prov, st1)"
    and "newWallet E privateKey = Inr w"
    and "\<not> not_positive (parseFloat E amount)"
    and "ERC20_TOKENS chain symbol = None"
    and "parseEther E amount = Inr amountWei"
    and "getBalance prov 0 (w_address w) = Inr bal"
  shows "(bal < amountWei \<longrightarrow>
            sendEVMTransaction E chain encryptedPrivateKey toAddr amount symbol feeLevel st =
              (failure (''Insufficient '' @ symbol @ '' balance. Have: '' @ formatEther E bal
                          @ '', Need: '' @ amount) False,
               log_effect (RpcGetBalance (w_address w)) st1)
            \<and> filter submitted (trace (log_effect (RpcGetBalance (w_address w)) st1)) =
                filter submitted (trace st))
       \<and> (\<forall>n st2 ge st3 bal1.
            amountWei \<le> bal
            \<and> getNextNonce E prov (w_address w) (log_effect (RpcGetBalance (w_address w)) st1) =
                (Inr n, st2)
            \<and> estimateGas E prov chain
                 ((native_tx toAddr amountWei (w_address w))\<lparr>tx_nonce := Some n\<rparr>) st2 = (Inr ge, st3)
            \<and> getBalance prov 1 (w_address w) = Inr bal1
            \<and> bal1 < amountWei + gasLimit ge *
                  bigint_div (maxFeePerGas ge * (if feeLevel = ''fast'' then 150
                                                  else if feeLevel = ''economy'' then 80 else 100)) 100
            \<longrightarrow>
            sendEVMTransaction E chain encryptedPrivateKey toAddr amount symbol feeLevel st =
              (failure (''Insufficient balance for amount + gas. Need: ''
                          @ formatEther E (amountWei + gasLimit ge *
                              bigint_div (maxFeePerGas ge * (if feeLevel = ''fast'' then 150
                                 else if feeLevel = ''economy'' then 80 else 100)) 100)
                          @ '' '' @ symbol) False,
               log_effect (RpcGetBalance (w_address w)) st3)
            \<and> filter submitted (trace (log_effect (RpcGetBalance (w_address w)) st3)) =
                filter submitted (trace st))"
proof (intro conjI impI allI)
  have key: "\<not> (privateKey = [] \<or> length privateKey < 64)"
    using assms(3) by auto
  have u1: "filter submitted (trace st1) = filter submitted (trace st)"
    using getProvider_unsubmitted [OF assms(4)] .
  {
    assume low: "bal < amountWei"
    show "sendEVMTransaction E chain encryptedPrivateKey toAddr amount symbol feeLevel st =
              (failure (''Insufficient '' @ symbol @ '' balance. Have: '' @ formatEther E bal
                          @ '', Need: '' @ amount) False,
               log_effect (RpcGetBalance (w_address w)) st1)"
      using assms key low
      by (simp add: sendEVMTransaction_def sendEVM_try_def sendEVM_prepare_def Let_def)
    show "filter submitted (trace (log_effect (RpcGetBalance (w_address w)) st1)) =
                filter submitted (trace st)"
      using u1 by (simp add: submitted_def)
  }
  fix n st2 ge st3 bal1
  let ?m = "if feeLevel = ''fast'' then 150 else if feeLevel = ''economy'' then (80::int) else 100"
  assume h: "amountWei \<le> bal
            \<and> getNextNonce E prov (w_address w) (log_effect (RpcGetBalance (w_address w)) st1) =
                (Inr n, st2)
            \<and> estimateGas E prov chain
                 ((native_tx toAddr amountWei (w_address w))\<lparr>tx_nonce := Some n\<rparr>) st2 = (Inr ge, st3)
            \<and> getBalance prov 1 (w_address w) = Inr bal1
            \<and> bal1 < amountWei + gasLimit ge * bigint_div (maxFeePerGas ge * ?m) 100"
  have prep: "sendEVM_prepare E prov w chain toAddr amount symbol st1 =
                (Continue (False, native_tx toAddr amountWei (w_address w)),
                 log_effect (RpcGetBalance (w_address w)) st1)"
    using assms h by (simp add: sendEVM_prepare_def Let_def)
  have v: "tx_value (native_tx toAddr amountWei (w_address w)) = Some amountWei"
    by (simp add: native_tx_def)
  have sub: "sendEVM_submit E config prov w chain symbol feeLevel False
               (native_tx toAddr amountWei (w_address w))
               (log_effect (RpcGetBalance (w_address w)) st1) =
             (Inr (failure (''Insufficient balance for amount + gas. Need: ''
                          @ formatEther E (amountWei + gasLimit ge *
                              bigint_div (maxFeePerGas ge * ?m) 100)
                          @ '' '' @ symbol) False),
              log_effect (RpcGetBalance (w_address w)) st3)"
    using h v by (simp add: sendEVM_submit_def Let_def)
  show "sendEVMTransaction E chain encryptedPrivateKey toAddr amount symbol feeLevel st =
              (failure (''Insufficient balance for amount + gas. Need: ''
                          @ formatEther E (amountWei + gasLimit ge *
                              bigint_div (maxFeePerGas ge * ?m) 100)
                          @ '' '' @ symbol) False,
               log_effect (RpcGetBalance (w_address w)) st3)"
    using assms key prep sub
    by (simp add: sendEVMTransaction_def sendEVM_try_def)
  from h have hn: "getNextNonce E prov (w_address w)
                     (log_effect (RpcGetBalance (w_address w)) st1) = (Inr n, st2)"
    and hg: "estimateGas E prov chain
               ((native_tx toAddr amountWei (w_address w))\<lparr>tx_nonce := Some n\<rparr>) st2 = (Inr ge, st3)"
    by simp_all
  have "filter submitted (trace st2) = filter submitted (trace st)"
    using getNextNonce_unsubmitted [OF hn] u1 by (simp add: submitted_def)
  then have "filter submitted (trace st3) = filter submitted (trace st)"
    using estimateGas_unsubmitted [OF hg] by simp
  then show "filter submitted (trace (log_effect (RpcGetBalance (w_address w)) st3)) =
                filter submitted (trace st)"
    by (simp add: submitted_def)
qed

theorem insufficient_native_balance_rejected_witness:
  "fst (sendEVMTransaction (poor_env 1500000000000000000) ''ETHEREUM'' ''U2FsdGVk'' ''0xDeF''
          ''1.5'' ''ETH'' ''standard'' fresh_state) =
     failure ''Insufficient ETH balance. Have: 1000000000000000000, Need: 1.5'' False
   \<and> filter submitted (trace (snd (sendEVMTransaction (poor_env 1500000000000000000) ''ETHEREUM''
          ''U2FsdGVk'' ''0xDeF'' ''1.5'' ''ETH'' ''standard'' fresh_state))) = []
   \<and> fst (sendEVMTransaction (poor_env 1000000000000000000) ''ETHEREUM'' ''U2FsdGVk'' ''0xDeF''
          ''1'' ''ETH'' ''standard'' fresh_state) =
     failure ''Insufficient balance for amount + gas. Need: 1000030240000000000 ETH'' False
   \<and> filter submitted (trace (snd (sendEVMTransaction (poor_env 1000000000000000000) ''ETHEREUM''
          ''U2FsdGVk'' ''0xDeF'' ''1'' ''ETH'' ''standard'' fresh_state))) = []"
proof -
  let ?E = "poor_env 1500000000000000000" and ?F = "poor_env 1000000000000000000"
  let ?k = "replicate 64 (CHR ''k'')"
  let ?st1 = "log_effect (ProbeRpc ''https://eth.llamarpc.com'') fresh_state"
  let ?st2 = "log_effect (RpcGetBalance ''0xAbC'') ?st1"
  have c: "CHAIN_CONFIG (process_env E) ''ETHEREUM'' = Some
             \<lparr>rpc = [or_str (process_env E ''ALCHEMY_ETH_RPC'') ''https://eth.llamarpc.com'',
                     ''https://rpc.ankr.com/eth'', ''https://cloudflare-eth.com''],
              chainId = 1, nativeCurrency = ''ETH'',
              explorer = ''https://etherscan.io/tx/'', gasMultiplier = 12 / 10\<rparr>" for E
    by (simp add: CHAIN_CONFIG_def)
  have d: "decrypt (poor_env x) ''U2FsdGVk'' = Inr ?k" for x
    by (simp add: poor_env_def sample_env_def)
  have l: "64 \<le> length ?k" by simp
  have p: "getProvider (poor_env x) ''ETHEREUM'' fresh_state = (Inr poor_provider, ?st1)" for x
    by (simp add: getProvider_def CHAIN_CONFIG_def poor_env_def sample_env_def or_str_def Let_def)
  have w: "newWallet (poor_env x) ?k = Inr sample_wallet" for x
    by (simp add: poor_env_def sample_env_def)
  have a: "\<not> not_positive (parseFloat (poor_env x) y)" for x y
    by (simp add: poor_env_def sample_env_def not_positive_def)
  have t: "ERC20_TOKENS ''ETHEREUM'' ''ETH'' = None"
    by (simp add: ERC20_TOKENS_def)
  have e: "parseEther (poor_env x) y = Inr x" for x y
    by (simp add: poor_env_def sample_env_def)
  have b: "getBalance poor_provider i (w_address sample_wallet) = Inr 1000000000000000000" for i
    by (simp add: poor_provider_def sample_provider_def)
  note first = insufficient_native_balance_rejected
    [where E = ?E and amount = "''1.5''" and toAddr = "''0xDeF''" and feeLevel = "''standard''",
     OF c d l p w a t e b, THEN conjunct1, rule_format]
  note second = insufficient_native_balance_rejected
    [where E = ?F and amount = "''1''" and toAddr = "''0xDeF''" and feeLevel = "''standard''",
     OF c d l p w a t e b, THEN conjunct2, rule_format,
     where n = 5 and ?st2.0 = "snd (getNextNonce ?F poor_provider ''0xAbC'' ?st2)"
       and ge = "\<lparr>gasLimit = 25200, maxFeePerGas = 1200000000, maxPriorityFeePerGas = 120000000,
          estimatedCost = ''30240000000000''\<rparr>"
       and ?st3.0 = "log_effect RpcGetFeeData (log_effect RpcEstimateGas
           (snd (getNextNonce ?F poor_provider ''0xAbC'' ?st2)))"
       and ?bal1.0 = 1000000000000000000]
  have n: "getNextNonce ?F poor_provider ''0xAbC'' ?st2 =
             (Inr 5, snd (getNextNonce ?F poor_provider ''0xAbC'' ?st2))"
    by (simp add: getNextNonce_def poor_provider_def sample_provider_def fresh_state_def
          log_effect_def Let_def)
  have g: "estimateGas ?F poor_provider ''ETHEREUM''
             ((native_tx ''0xDeF'' 1000000000000000000 ''0xAbC'')\<lparr>tx_nonce := Some 5\<rparr>)
             (snd (getNextNonce ?F poor_provider ''0xAbC'' ?st2)) =
           (Inr \<lparr>gasLimit = 25200, maxFeePerGas = 1200000000, maxPriorityFeePerGas = 120000000,
                 estimatedCost = ''30240000000000''\<rparr>,
            log_effect RpcGetFeeData (log_effect RpcEstimateGas
              (snd (getNextNonce ?F poor_provider ''0xAbC'' ?st2))))"
    by (simp add: estimateGas_def CHAIN_CONFIG_def poor_provider_def sample_provider_def
          poor_env_def sample_env_def bigint_div_def native_tx_def truthy_def show_int_def
          show_nat.simps Let_def)
  have f: "formatEther (poor_env x) y = show_int y" for x y
    by (simp add: poor_env_def sample_env_def)
  show ?thesis
    using first second n g b [of 1]
    by (simp add: sample_wallet_def fresh_state_def f bigint_div_def show_int_def show_nat.simps
          log_effect_def submitted_def)
qed

section \<open>Invalidation of the nonce cache\<close>

text \<open>
  The \<open>catch\<close> block passes the literal address \<open>unknown\<close> to
  \<open>invalidateNonceCache\<close>, so the entry of any other address stays.
\<close>

lemma catch_keeps_sender_entry:
  assumes "toLowerCase addr \<noteq> ''unknown''" and "0 < chainId config"
  shows "nonceCache (snd (sendEVM_catch config e st)) (nonce_cacheKey (Some (chainId config)) addr)
           = nonceCache st (nonce_cacheKey (Some (chainId config)) addr)"
proof -
  have "toLowerCase ''unknown'' = ''unknown''"
    by (simp add: toLowerCase_def)
  with assms show ?thesis
    by (simp add: sendEVM_catch_def invalidateNonceCache_def nonce_cacheKey_def Let_def)
qed

text \<open>
  C5. After a submission failure whose message contains \<open>nonce\<close> the cache entry of
  the sender should be gone, so that the next allocation returns the pending count of
  the provider. In the sample world the broadcast fails with \<open>nonce too high\<close>; the
  entry of the sender is still cached afterwards (holding 10), and the next allocation,
  one second later, returns 10 although the provider reports 5.
\<close>

theorem nonce_failure_keeps_sender_entry:
  "fst (sendEVMTransaction sample_env ''ETHEREUM'' ''U2FsdGVk'' ''0xDeF'' ''1'' ''ETH''
          ''standard'' sample_state) = failure ''nonce too high'' True
   \<and> nonceCache (snd (sendEVMTransaction sample_env ''ETHEREUM'' ''U2FsdGVk'' ''0xDeF'' ''1''
          ''ETH'' ''standard'' sample_state))
        (nonce_cacheKey (network_chainId sample_provider) ''0xAbC'') =
       Some \<lparr>nonce = 10, timestamp = 100000\<rparr>
   \<and> getTransactionCount sample_provider ''0xAbC'' = Inr 5
   \<and> fst (getNextNonce (sample_env\<lparr>date_now := 101000\<rparr>) sample_provider ''0xAbC''
            (snd (sendEVMTransaction sample_env ''ETHEREUM'' ''U2FsdGVk'' ''0xDeF'' ''1''
               ''ETH'' ''standard'' sample_state))) = Inr 10"
  by (simp add: evm_defs sample_env_def sample_provider_def sample_wallet_def sample_state_def)

section \<open>Classification of failures\<close>




section \<open>Balance queries\<close>





section \<open>Fee estimation\<close>







section \<open>The status store\<close>























text \<open>
  C9. After a TronGrid notification whose transaction has the contract return code
  \<open>SUCCESS\<close> the record of its hash is confirmed with one confirmation. After an
  accepted dropped-transaction notification for the same hash the record is the one
  built from that notification alone: failed, no confirmations, and none of the
  amount, chain tag or other fields of the earlier record.
\<close>

theorem tron_confirmed_then_dropped:
  assumes "tg_transaction b = Some t"
    and "tg_contractRet t = Some ''SUCCESS''"
    and "al_type (body req) = Some ''DROPPED_TRANSACTION''"
    and "al_event (body req) = Some ev"
    and "ev_transaction ev = Some d"
    and "at_hash d = or_opt (tg_txID t) (tg_hash t)"
    and "fst (ingest W2 (Alchemy req) (snd (ingest W1 (TronGrid b) s))) = Received"
  shows "(\<exists>r. DAList.lookup (transactionStatuses (snd (ingest W1 (TronGrid b) s)))
                 (or_opt (tg_txID t) (tg_hash t)) = Some r
              \<and> status r = Confirmed \<and> confirmations r = 1 \<and> ts_chain r = ''TRON'')
         \<and> DAList.lookup (transactionStatuses
               (snd (ingest W2 (Alchemy req) (snd (ingest W1 (TronGrid b) s)))))
               (or_opt (tg_txID t) (tg_hash t))
           = Some \<lparr>ts_txHash = or_opt (tg_txID t) (tg_hash t), status = Failed,
                   confirmations = 0,
                   ts_chain = or_str (map_option toUpperCase (ev_network ev)) ''ETHEREUM'',
                   ts_timestamp = Some (w_clock W2 0), fromAddress = at_from d,
                   toAddress = at_to d, ts_amount = None, blockNumber = None,
                   blockHash = None\<rparr>"
proof -
  have sw: "alchemy_switch W2 (body req) =
              (None, [(at_hash d,
                 \<lparr>ts_txHash = at_hash d, status = Failed, confirmations = 0,
                  ts_chain = or_str (map_option toUpperCase (ev_network ev)) ''ETHEREUM'',
                  ts_timestamp = Some (w_clock W2 0), fromAddress = at_from d,
                  toAddress = at_to d, ts_amount = None, blockNumber = None,
                  blockHash = None\<rparr>)])"
    using assms(3-5) by (simp add: alchemy_switch_def)
  have "fst (post_alchemy W2 req) = Received"
    using assms(7) by (simp add: ingest_def)
  then have ws: "snd (post_alchemy W2 req) = snd (alchemy_switch W2 (body req))"
    by (auto simp: post_alchemy_def handler_result_def sw split: sum.splits if_splits)
  show ?thesis
    using assms(1,2,6) ws sw
    by (simp add: ingest_def post_trongrid_def set_and_notify_def)
qed

theorem tron_confirmed_then_dropped_witness:
  "fst (ingest (wh_env_at 2000) (Alchemy sample_dropped)
          (snd (ingest (wh_env_at 1000) (TronGrid sample_tron_success) empty_store))) = Received
   \<and> map_option status (get_status
        (snd (ingest (wh_env_at 1000) (TronGrid sample_tron_success) empty_store)) ''abc123'')
       = Some Confirmed
   \<and> get_status (snd (ingest (wh_env_at 2000) (Alchemy sample_dropped)
          (snd (ingest (wh_env_at 1000) (TronGrid sample_tron_success) empty_store)))) ''abc123''
       = Some \<lparr>ts_txHash = Some ''abc123'', status = Failed, confirmations = 0,
               ts_chain = ''ETHEREUM'', ts_timestamp = Some 2000, fromAddress = Some ''TFrom'',
               toAddress = Some ''TTo'', ts_amount = None, blockNumber = None,
               blockHash = None\<rparr>"
proof -
  let ?t = "\<lparr>tg_txID = Some ''abc123'', tg_hash = None,
                             tg_contractRet = Some ''SUCCESS'', tg_timestamp = Some 5000,
                             tg_owner_address = Some ''TFrom'', tg_to_address = Some ''TTo'',
                             tg_amount = Some ''1000000''\<rparr>"
  let ?d = "\<lparr>at_hash = Some ''abc123'', at_from = Some ''TFrom'',
                                        at_to = Some ''TTo'', at_value = None,
                                        at_blockNumber = None, at_blockHash = None\<rparr>"
  let ?ev = "\<lparr>ev_network = None, ev_activity = None, ev_transaction = Some ?d\<rparr>"
  have a1: "tg_transaction sample_tron_success = Some ?t"
    by (simp add: sample_tron_success_def)
  have a2: "tg_contractRet ?t = Some ''SUCCESS''" by simp
  have a3: "al_type (body sample_dropped) = Some ''DROPPED_TRANSACTION''"
    by (simp add: sample_dropped_def)
  have a4: "al_event (body sample_dropped) = Some ?ev"
    by (simp add: sample_dropped_def)
  have a5: "ev_transaction ?ev = Some ?d" by simp
  have a6: "at_hash ?d = or_opt (tg_txID ?t) (tg_hash ?t)"
    by (simp add: or_opt_def truthy_def)
  have a7: "fst (ingest (wh_env_at 2000) (Alchemy sample_dropped)
          (snd (ingest (wh_env_at 1000) (TronGrid sample_tron_success) empty_store))) = Received"
    by (simp add: ingest_def post_alchemy_def handler_result_def wh_env_at_def
          alchemy_switch_def sample_dropped_def)
  have k: "or_opt (tg_txID ?t) (tg_hash ?t) = Some ''abc123''"
    by (simp add: or_opt_def truthy_def)
  note th = tron_confirmed_then_dropped [OF a1 a2 a3 a4 a5 a6 a7, unfolded k]
  have c: "w_clock (wh_env_at 2000) 0 = 2000"
    by (simp add: wh_env_at_def)
  from th show ?thesis
    using a7 by (auto simp: get_status_def or_str_def c)
qed

section \<open>Queue statistics\<close>

text \<open>
  C10. \<open>getQueueStats\<close> counts as pending exactly the queued entries whose
  \<open>retryCount\<close> is 0 and as retrying exactly those whose \<open>retryCount\<close> is greater
  than 0, and the two counts add up to the number of queued entries.
\<close>

theorem getQueueStats_partition:
  "pending (getQueueStats st) =
     length (filter (\<lambda>tx. retryCount tx = 0) (map snd (DAList.impl_of (transactionQueue st))))
   \<and> retrying (getQueueStats st) =
     length (filter (\<lambda>tx. retryCount tx > 0) (map snd (DAList.impl_of (transactionQueue st))))
   \<and> pending (getQueueStats st) + retrying (getQueueStats st) =
     length (DAList.impl_of (transactionQueue st))"
proof -
  let ?txs = "map snd (DAList.impl_of (transactionQueue st))"
  have "length (filter (\<lambda>tx. retryCount tx = 0) ?txs) + length (filter (\<lambda>tx. retryCount tx > 0) ?txs)
        = length ?txs"
    using sum_length_filter_compl [of "\<lambda>tx. retryCount tx = 0" ?txs] by simp
  then show ?thesis
    by (simp add: getQueueStats_def getQueueStats_loop_count)
qed

end
